theory Spec2Isabelle
  imports Main
begin

section \<open>JavaScript values and string operations\<close>

text \<open>
  The translator receives wire payloads typed \<open>any\<close>, \<open>unknown\<close> or
  \<open>Record<string, any>\<close>. They are modelled by \<open>json\<close>. An object is the
  association list of its own enumerable properties in enumeration order (keys distinct),
  so that \<open>Object.keys\<close> is the list of first components. Numbers are the integers
  on which a double is exact. A \<open>char\<close> stands for one UTF-16 code unit below U+0100.
\<close>

datatype json =
    JUndefined
  | JNull
  | JBool bool
  | JNum int
  | JStr string
  | JArr "json list"
  | JObj "(string \<times> json) list"

datatype error = TypeError

text \<open>ToBoolean, as used by \<open>!x\<close>, \<open>x || y\<close>, \<open>x ? a : b\<close> and \<open>if (x)\<close>.\<close>

fun truthy :: "json \<Rightarrow> bool" where
  "truthy JUndefined = False"
| "truthy JNull = False"
| "truthy (JBool b) = b"
| "truthy (JNum n) = (n \<noteq> 0)"
| "truthy (JStr s) = (s \<noteq> [])"
| "truthy (JArr xs) = True"
| "truthy (JObj kvs) = True"

definition js_or :: "json \<Rightarrow> json \<Rightarrow> json" where
  "js_or a b = (if truthy a then a else b)"

text \<open>\<open>typeof v === 'object'\<close>: true of objects, arrays and \<open>null\<close>.\<close>

fun typeof_object :: "json \<Rightarrow> bool" where
  "typeof_object JNull = True"
| "typeof_object (JArr xs) = True"
| "typeof_object (JObj kvs) = True"
| "typeof_object v = False"


definition lookup :: "(string \<times> json) list \<Rightarrow> string \<Rightarrow> json" where
  "lookup kvs k = (case map_of kvs k of None \<Rightarrow> JUndefined | Some v \<Rightarrow> v)"

text \<open>
  Property read \<open>v.k\<close> for the property names the translator reads (none of them is a
  built-in property of a string, number, boolean or array): a TypeError on
  \<open>null\<close> and \<open>undefined\<close>.
\<close>

fun get_prop :: "json \<Rightarrow> string \<Rightarrow> error + json" where
  "get_prop JUndefined k = Inl TypeError"
| "get_prop JNull k = Inl TypeError"
| "get_prop (JObj kvs) k = Inr (lookup kvs k)"
| "get_prop v k = Inr JUndefined"

text \<open>Optional chaining \<open>v?.k\<close>.\<close>

fun opt_prop :: "json \<Rightarrow> string \<Rightarrow> json" where
  "opt_prop (JObj kvs) k = lookup kvs k"
| "opt_prop v k = JUndefined"

subsection \<open>Strings\<close>

text \<open>Decimal digits of a number, as ToString prints an integer.\<close>

fun show_nat :: "nat \<Rightarrow> string" where
  "show_nat n = (if n < 10 then [char_of (48 + n)]
                 else show_nat (n div 10) @ [char_of (48 + n mod 10)])"

declare show_nat.simps [simp del]

definition show_int :: "int \<Rightarrow> string" where
  "show_int i = (if i < 0 then CHR ''-'' # show_nat (nat (- i)) else show_nat (nat i))"

text \<open>
  \<open>Object.keys(v)\<close>: the own enumerable property names; the indices for an array or a
  string, nothing for a number or a boolean, a TypeError for \<open>null\<close> and
  \<open>undefined\<close>.
\<close>

fun object_keys :: "json \<Rightarrow> error + json" where
  "object_keys (JObj kvs) = Inr (JArr (map (\<lambda>kv. JStr (fst kv)) kvs))"
| "object_keys (JArr xs) = Inr (JArr (map (\<lambda>i. JStr (show_nat i)) [0..<length xs]))"
| "object_keys (JStr s) = Inr (JArr (map (\<lambda>i. JStr (show_nat i)) [0..<length s]))"
| "object_keys (JNum n) = Inr (JArr [])"
| "object_keys (JBool b) = Inr (JArr [])"
| "object_keys JNull = Inl TypeError"
| "object_keys JUndefined = Inl TypeError"

text \<open>
  ToString, as a template literal applies it. An object parsed from JSON prints as
  \<open>[object Object]\<close> unless it has an own property \<open>toString\<close>, which cannot be
  callable there, so that the conversion to a primitive fails with a TypeError. An array
  joins its elements with commas, \<open>null\<close> and \<open>undefined\<close> printing as nothing.
\<close>

fun js_to_string :: "json \<Rightarrow> error + string"
  and join_strings :: "json list \<Rightarrow> error + string" where
  "js_to_string JUndefined = Inr ''undefined''"
| "js_to_string JNull = Inr ''null''"
| "js_to_string (JBool b) = Inr (if b then ''true'' else ''false'')"
| "js_to_string (JNum n) = Inr (show_int n)"
| "js_to_string (JStr s) = Inr s"
| "js_to_string (JArr xs) = join_strings xs"
| "js_to_string (JObj kvs) =
     (if ''toString'' \<in> set (map fst kvs) then Inl TypeError else Inr ''[object Object]'')"
| "join_strings [] = Inr []"
| "join_strings (x # xs) =
     (case (if x = JNull \<or> x = JUndefined then Inr [] else js_to_string x) of
        Inl e \<Rightarrow> Inl e
      | Inr s \<Rightarrow>
          (if xs = [] then Inr s
           else (case join_strings xs of Inl e \<Rightarrow> Inl e | Inr r \<Rightarrow> Inr (s @ '','' @ r))))"

text \<open>
  White space as \<open>\s\<close> and \<open>trim\<close> see it: tab, line feed, vertical tab, form
  feed, carriage return, space and no-break space.
\<close>

definition is_space :: "char \<Rightarrow> bool" where
  "is_space c = (c \<in> set [CHR 0x09, CHR 0x0A, CHR 0x0B, CHR 0x0C, CHR 0x0D, CHR 0x20, CHR 0xA0])"

definition trim :: "string \<Rightarrow> string" where
  "trim s = rev (dropWhile is_space (rev (dropWhile is_space s)))"

text \<open>
  \<open>toLowerCase\<close>, one code unit at a time: A to Z, and the Latin-1 capitals U+00C0 to
  U+00DE except the multiplication sign.
\<close>

definition lower_char :: "char \<Rightarrow> char" where
  "lower_char c =
     (let n = (of_char c :: nat)
      in if (65 \<le> n \<and> n \<le> 90) \<or> (192 \<le> n \<and> n \<le> 222 \<and> n \<noteq> 215)
         then char_of (n + 32) else c)"

definition toLowerCase :: "string \<Rightarrow> string" where
  "toLowerCase s = map lower_char s"

definition startsWith :: "string \<Rightarrow> string \<Rightarrow> bool" where
  "startsWith s p = (take (length p) s = p)"

text \<open>\<open>s.includes(p)\<close>.\<close>

fun str_includes :: "string \<Rightarrow> string \<Rightarrow> bool" where
  "str_includes [] p = (p = [])"
| "str_includes (c # cs) p = (startsWith (c # cs) p \<or> str_includes cs p)"

text \<open>
  The text before and after the first occurrence of \<open>p\<close> in \<open>s\<close>, when there is
  one.
\<close>

fun split_first :: "string \<Rightarrow> string \<Rightarrow> (string \<times> string) option" where
  "split_first p [] = (if p = [] then Some ([], []) else None)"
| "split_first p (c # cs) =
     (if startsWith (c # cs) p then Some ([], drop (length p) (c # cs))
      else (case split_first p cs of
              None \<Rightarrow> None
            | Some (pre, post) \<Rightarrow> Some (c # pre, post)))"


subsection \<open>The regular expressions of the translator\<close>

definition fence :: string where
  "fence = ''```''"

text \<open>
  The capture group of \<open>/```(?:json)?\s*([\s\S]*?)```/\<close>. A match starts at the
  first fence: after it the optional \<open>json\<close> and the white space are taken greedily,
  and the lazy group ends at the next fence. Giving back \<open>json\<close> or white space
  uncovers no further fence, so there is no match when that search fails.
\<close>

definition match_code_block :: "string \<Rightarrow> string option" where
  "match_code_block s =
     (case split_first fence s of
        None \<Rightarrow> None
      | Some (pre, post) \<Rightarrow>
          (let post1 = (if startsWith post ''json'' then drop 4 post else post);
               post2 = dropWhile is_space post1
           in (case split_first fence post2 of
                 None \<Rightarrow> None
               | Some (body, rest) \<Rightarrow> Some body)))"

lemma split_first_length:
  "split_first p s = Some (pre, post) \<Longrightarrow> length pre + length p + length post = length s"
proof (induction s arbitrary: pre post)
  case Nil
  then show ?case by (simp split: if_splits)
next
  case (Cons c cs)
  show ?case
  proof (cases "startsWith (c # cs) p")
    case True
    with Cons.prems have "pre = []" and "post = drop (length p) (c # cs)" by simp_all
    moreover from True have "length p \<le> length (c # cs)"
      unfolding startsWith_def by (metis length_take min.cobounded1)
    ultimately show ?thesis by simp
  next
    case False
    with Cons.prems obtain pre' where "split_first p cs = Some (pre', post)" and "pre = c # pre'"
      by (auto split: option.splits)
    with Cons.IH show ?thesis by fastforce
  qed
qed

text \<open>
  \<open>s.replace(/```[\s\S]*?```/g, '')\<close>: every fenced block is removed, from the left;
  a fence that is never closed stays, with all the text after it.
\<close>

function strip_code_blocks :: "string \<Rightarrow> string" where
  "strip_code_blocks s =
     (case split_first fence s of
        None \<Rightarrow> s
      | Some (pre, post) \<Rightarrow>
          (case split_first fence post of
             None \<Rightarrow> s
           | Some (body, rest) \<Rightarrow> pre @ strip_code_blocks rest))"
  by pat_completeness auto
termination
proof (relation "measure length")
  show "wf (measure length)" by simp
next
  fix s x2 pre post x2a body rest
  assume "split_first fence s = Some x2" "(pre, post) = x2"
    "split_first fence post = Some x2a" "(body, rest) = x2a"
  then have "length pre + length fence + length post = length s"
    and "length body + length fence + length rest = length post"
    using split_first_length by metis+
  then show "(rest, s) \<in> measure length" by (simp add: fence_def)
qed

declare strip_code_blocks.simps [simp del]

text \<open>\<open>\s*(\S+)\<close> at the head of \<open>r\<close>: the white space, then the run of other characters.\<close>

definition capture_nonspace :: "string \<Rightarrow> string option" where
  "capture_nonspace r =
     (let r' = dropWhile is_space r
      in if r' = [] then None else Some (takeWhile (\<lambda>c. \<not> is_space c) r'))"

text \<open>A literal of letters under the flag \<open>i\<close>; \<open>p\<close> is given in lower case.\<close>

definition ci_startsWith :: "string \<Rightarrow> string \<Rightarrow> bool" where
  "ci_startsWith s p = (toLowerCase (take (length p) s) = p)"

text \<open>
  \<open>/(?:Calling|Tool Call:?)\s*(\S+)/i\<close> tried at the head of \<open>r\<close>: the colon is taken
  first and given back when nothing can be captured after it.
\<close>

definition calling_at :: "string \<Rightarrow> string option" where
  "calling_at r =
     (if ci_startsWith r ''calling'' then capture_nonspace (drop 7 r)
      else if ci_startsWith r ''tool call'' then
        (let r1 = drop 9 r
         in if startsWith r1 '':'' then
              (case capture_nonspace (drop 1 r1) of
                 Some c \<Rightarrow> Some c
               | None \<Rightarrow> capture_nonspace r1)
            else capture_nonspace r1)
      else None)"

text \<open>The capture group of the leftmost match of that expression in the title.\<close>

fun match_calling :: "string \<Rightarrow> string option" where
  "match_calling [] = calling_at []"
| "match_calling (c # cs) =
     (case calling_at (c # cs) of Some m \<Rightarrow> Some m | None \<Rightarrow> match_calling cs)"

text \<open>
  \<open>/^(\S+)\s*Result/i\<close>: the group is tried at its longest, \<open>k\<close> characters, then
  shorter.
\<close>

fun result_prefix :: "nat \<Rightarrow> string \<Rightarrow> string option" where
  "result_prefix 0 s = None"
| "result_prefix (Suc k) s =
     (if ci_startsWith (dropWhile is_space (drop (Suc k) s)) ''result''
      then Some (take (Suc k) s) else result_prefix k s)"

definition match_result :: "string \<Rightarrow> string option" where
  "match_result s = result_prefix (length (takeWhile (\<lambda>c. \<not> is_space c) s)) s"


section \<open>Protocol and chat types\<close>

record A2AFile =
  file_name :: string
  mimeType :: string
  bytes :: "string option"
  uri :: "string option"

text \<open>
  \<open>A2APart\<close>. The kind is kept as the string on the wire, since the translator has a
  default branch for any other kind; an absent \<open>data\<close> is \<open>JUndefined\<close>.
\<close>

record A2APart =
  kind :: string
  part_text :: "string option"
  part_file :: "A2AFile option"
  part_data :: json
  part_metadata :: "(string \<times> json) list option"

record A2AArtifact =
  artifactId :: string
  artifact_name :: "string option"
  artifact_description :: "string option"
  parts :: "A2APart list"
  artifact_metadata :: "(string \<times> json) list option"

text \<open>\<open>A2ATask\<close>; \<open>task_state\<close> is \<open>status.state\<close>.\<close>

record A2ATask =
  task_id :: string
  task_state :: string
  artifacts :: "A2AArtifact list"
  history :: "json list"

definition TRAJECTORY :: string where
  "TRAJECTORY = ''https://a2a-extensions.agentstack.beeai.dev/ui/trajectory/v1''"


definition THINKING :: string where "THINKING = ''thinking''"
definition RESPONSE :: string where "RESPONSE = ''response''"
definition TOOL_CALL :: string where "TOOL_CALL = ''tool_call''"
definition TOOL_RESULT :: string where "TOOL_RESULT = ''tool_result''"
definition STATUS :: string where "STATUS = ''status''"

datatype ChainOfThoughtStepStatus = PROCESSING | SUCCESS | ERROR

text \<open>
  \<open>ChainOfThoughtStep\<close>. Title, tool name and description hold whatever value the
  translator puts there (\<open>JUndefined\<close> when absent); \<open>request = Some a\<close> is the object
  \<open>{ args: a }\<close> and \<open>response = Some c\<close> is \<open>{ content: c }\<close>.
\<close>

record ChainOfThoughtStep =
  step_title :: json
  tool_name :: json
  description :: json
  request :: "json option"
  response :: "json option"
  status :: ChainOfThoughtStepStatus

datatype ReasoningStepOpenState = OPEN | CLOSED

record ReasoningStep =
  step_content :: string

record ReasoningSteps =
  steps :: "ReasoningStep list"
  openState :: "ReasoningStepOpenState option"

text \<open>
  \<open>CarbonMessage\<close>. \<open>chain_of_thought = Some ss\<close> is the object \<open>{ steps: ss }\<close>;
  \<open>user_defined\<close> is the object literal, key by key, in the order of the source.
\<close>

record CarbonMessage =
  response_type :: string
  msg_text :: "string option"
  reasoning_steps :: "ReasoningSteps option"
  chain_of_thought :: "ChainOfThoughtStep list option"
  user_defined :: "(string \<times> json) list option"
  msg_metadata :: "(string \<times> json) list option"

definition empty_message :: "string \<Rightarrow> CarbonMessage" where
  "empty_message rt =
     \<lparr> response_type = rt, msg_text = None, reasoning_steps = None,
       chain_of_thought = None, user_defined = None, msg_metadata = None \<rparr>"

text \<open>
  \<open>TrajectoryData\<close>, at its declared type: every field is a string, \<open>null\<close> or
  absent (\<open>None\<close> for both).
\<close>

record TrajectoryData =
  title :: "string option"
  content :: "string option"
  group_id :: "string option"
  content_type :: "string option"

text \<open>Truthiness of a value of type \<open>string | null | undefined\<close>.\<close>

fun present :: "string option \<Rightarrow> bool" where
  "present None = False"
| "present (Some s) = (s \<noteq> [])"

definition str_json :: "string option \<Rightarrow> json" where
  "str_json x = (case x of None \<Rightarrow> JUndefined | Some s \<Rightarrow> JStr s)"

text \<open>
  The cast \<open>as TrajectoryData\<close>, which the source does not check: the interface's
  view of a value, each field read at its declared type. An array or another value
  without these properties has none of the fields. A value that holds anything but a
  string or \<open>null\<close> in one of the four fields is outside the interface, and outside
  this embedding.
\<close>

definition string_field :: "json \<Rightarrow> string \<Rightarrow> string option" where
  "string_field v k = (case opt_prop v k of JStr s \<Rightarrow> Some s | _ \<Rightarrow> None)"

definition asTrajectoryData :: "json \<Rightarrow> TrajectoryData" where
  "asTrajectoryData v =
     \<lparr> title = string_field v ''title'', content = string_field v ''content'',
       group_id = string_field v ''group_id'', content_type = string_field v ''content_type'' \<rparr>"

section \<open>Helper functions\<close>

definition extractTrajectoryFromMetadata :: "(string \<times> json) list option \<Rightarrow> TrajectoryData option" where
  "extractTrajectoryFromMetadata metadata =
     (case metadata of
        None \<Rightarrow> None
      | Some md \<Rightarrow>
          (let trajectoryData = lookup md TRAJECTORY
           in if truthy trajectoryData \<and> typeof_object trajectoryData
              then Some (asTrajectoryData trajectoryData) else None))"

text \<open>
  The result of \<open>parseTrajectoryContent\<close>; the fields it leaves out are
  \<open>JUndefined\<close>.
\<close>

record ParsedContent =
  parsed_type :: string
  toolName :: json
  args :: json
  result :: json
  parsed_status :: json

definition parsed_only :: "string \<Rightarrow> ParsedContent" where
  "parsed_only ty =
     \<lparr> parsed_type = ty, toolName = JUndefined, args = JUndefined, result = JUndefined,
       parsed_status = JUndefined \<rparr>"

text \<open>
  The body of the \<open>try\<close> block once \<open>JSON.parse\<close> has returned \<open>parsed\<close>:
  \<open>Inl\<close> when it throws (\<open>parsed.type\<close> on \<open>null\<close>), \<open>Inr None\<close> when it
  falls out of the block without returning. When \<open>parsed.type\<close> has not thrown, no later
  read of \<open>parsed\<close> throws.
\<close>

definition parsed_block :: "json \<Rightarrow> error + ParsedContent option" where
  "parsed_block parsed =
     (case get_prop parsed ''type'' of
        Inl e \<Rightarrow> Inl e
      | Inr ty \<Rightarrow>
          (let tool_data = opt_prop parsed ''tool_data''
           in if ty = JStr ''tool_call'' \<or> opt_prop parsed ''content_type'' = JStr ''tool_call'' then
                Inr (Some \<lparr> parsed_type = ''tool_call'',
                  toolName = js_or (opt_prop parsed ''tool_name'') (opt_prop tool_data ''tool_name''),
                  args = js_or (opt_prop parsed ''args'') (opt_prop tool_data ''args''),
                  result = JUndefined, parsed_status = JUndefined \<rparr>)
              else if ty = JStr ''tool_result'' \<or> opt_prop parsed ''content_type'' = JStr ''tool_result'' then
                Inr (Some \<lparr> parsed_type = ''tool_result'',
                  toolName = js_or (opt_prop parsed ''tool_name'') (opt_prop tool_data ''tool_name''),
                  args = JUndefined,
                  result = js_or (opt_prop parsed ''result'')
                    (js_or (opt_prop parsed ''result_preview'') (opt_prop tool_data ''result_preview'')),
                  parsed_status = js_or (opt_prop parsed ''status'')
                    (js_or (opt_prop tool_data ''status'') (JStr ''success'')) \<rparr>)
              else Inr None))"

text \<open>The fallback of \<open>parseTrajectoryContent\<close>, on the text alone.\<close>

definition content_patterns :: "string \<Rightarrow> ParsedContent" where
  "content_patterns c =
     (if str_includes c ''**Arguments:**'' \<or> str_includes (toLowerCase c) ''calling''
      then parsed_only ''tool_call''
      else if str_includes c ''**Result:**'' \<or> str_includes c ''**Status:**''
      then parsed_only ''tool_result''
      else parsed_only ''text'')"

text \<open>
  \<open>parseTrajectoryContent\<close>. \<open>JSON.parse\<close> belongs to the runtime and is the
  parameter \<open>parse\<close>: \<open>None\<close> when it throws a SyntaxError. The \<open>catch\<close> takes
  that error and the TypeError of the block alike.
\<close>

definition parseTrajectoryContent :: "(string \<Rightarrow> json option) \<Rightarrow> string option \<Rightarrow> ParsedContent" where
  "parseTrajectoryContent parse content' =
     (case content' of
        None \<Rightarrow> parsed_only ''text''
      | Some c \<Rightarrow>
          if c = [] then parsed_only ''text''
          else
            (let returned =
               (case match_code_block c of
                  None \<Rightarrow> None
                | Some body \<Rightarrow>
                    (case parse (trim body) of
                       None \<Rightarrow> None
                     | Some parsed \<Rightarrow>
                         (case parsed_block parsed of Inl e \<Rightarrow> None | Inr r \<Rightarrow> r)))
             in (case returned of Some r \<Rightarrow> r | None \<Rightarrow> content_patterns c)))"

definition inferContentTypeFromTitle :: "string option \<Rightarrow> string option" where
  "inferContentTypeFromTitle title' =
     (case title' of
        None \<Rightarrow> None
      | Some t \<Rightarrow>
          if t = [] then None
          else
            (let lowerTitle = toLowerCase t
             in if str_includes lowerTitle ''calling'' \<or> str_includes lowerTitle ''tool call''
                then Some TOOL_CALL
                else if str_includes lowerTitle ''result'' \<or> str_includes lowerTitle ''completed''
                then Some TOOL_RESULT
                else if str_includes lowerTitle ''thinking'' \<or> str_includes lowerTitle ''reasoning''
                then Some THINKING
                else if str_includes lowerTitle ''status'' \<or> str_includes lowerTitle ''progress''
                then Some STATUS
                else None))"

section \<open>The translator\<close>

text \<open>\<open>a || b\<close> on values of type \<open>string | null | undefined\<close>.\<close>

definition str_or :: "string option \<Rightarrow> string option \<Rightarrow> string option" where
  "str_or a b = (if present a then a else b)"

text \<open>
  \<open>trajectory.title?.match(re)\<close> followed by \<open>?.[1]\<close>, for a matcher \<open>re\<close> that
  gives the first capture group.
\<close>

definition title_capture :: "(string \<Rightarrow> string option) \<Rightarrow> string option \<Rightarrow> json" where
  "title_capture re title' =
     (case title' of
        None \<Rightarrow> JUndefined
      | Some t \<Rightarrow> (case re t of None \<Rightarrow> JUndefined | Some g \<Rightarrow> JStr g))"

text \<open>\<open>trajectory.content?.replace(/```[\s\S]*?```/g, '').trim() || undefined\<close>.\<close>

definition content_description :: "string option \<Rightarrow> json" where
  "content_description content' =
     (case content' of
        None \<Rightarrow> JUndefined
      | Some c \<Rightarrow> (let d = trim (strip_code_blocks c) in if d = [] then JUndefined else JStr d))"

text \<open>
  \<open>trajectory.title || `${pre}${toolName}${post}`\<close>: the template literal is evaluated,
  and can throw, only when the title is empty or absent.
\<close>

definition title_or_template :: "string option \<Rightarrow> string \<Rightarrow> json \<Rightarrow> string \<Rightarrow> error + json" where
  "title_or_template title' pre name post =
     (if present title' then Inr (str_json title')
      else (case js_to_string name of
              Inl e \<Rightarrow> Inl e
            | Inr n \<Rightarrow> Inr (JStr (pre @ n @ post))))"

definition chain_message :: "ChainOfThoughtStep \<Rightarrow> CarbonMessage" where
  "chain_message step = (empty_message ''chain_of_thought'') \<lparr> chain_of_thought := Some [step] \<rparr>"

definition createToolCallFromTrajectory :: "TrajectoryData \<Rightarrow> ParsedContent \<Rightarrow> error + CarbonMessage" where
  "createToolCallFromTrajectory trajectory parsedContent =
     (let toolNameMatch = title_capture match_calling (title trajectory);
          toolName' = js_or (toolName parsedContent) (js_or toolNameMatch (JStr ''tool''))
      in (case title_or_template (title trajectory) ''Calling '' toolName' [] of
            Inl e \<Rightarrow> Inl e
          | Inr ttl \<Rightarrow>
              Inr (chain_message
                \<lparr> step_title = ttl,
                  tool_name = toolName',
                  description = content_description (content trajectory),
                  request = (if truthy (args parsedContent) then Some (args parsedContent) else None),
                  response = None,
                  status = PROCESSING \<rparr>)))"

text \<open>The three signals of \<open>isError\<close>, a disjunction.\<close>

definition isError :: "TrajectoryData \<Rightarrow> ParsedContent \<Rightarrow> bool" where
  "isError trajectory parsedContent =
     (parsed_status parsedContent = JStr ''error'' \<or>
      (case content trajectory of None \<Rightarrow> False | Some c \<Rightarrow> str_includes (toLowerCase c) ''error'') \<or>
      (case title trajectory of None \<Rightarrow> False | Some t \<Rightarrow> str_includes (toLowerCase t) ''failed''))"

definition createToolResultFromTrajectory :: "TrajectoryData \<Rightarrow> ParsedContent \<Rightarrow> error + CarbonMessage" where
  "createToolResultFromTrajectory trajectory parsedContent =
     (let toolNameMatch = title_capture match_result (title trajectory);
          toolName' = js_or (toolName parsedContent) (js_or toolNameMatch (JStr ''tool''))
      in (case title_or_template (title trajectory) [] toolName' '' completed'' of
            Inl e \<Rightarrow> Inl e
          | Inr ttl \<Rightarrow>
              Inr (chain_message
                \<lparr> step_title = ttl,
                  tool_name = toolName',
                  description = content_description (content trajectory),
                  request = None,
                  response = (if truthy (result parsedContent) then Some (result parsedContent) else None),
                  status = (if isError trajectory parsedContent then ERROR else SUCCESS) \<rparr>)))"

definition reasoning_message :: "string \<Rightarrow> ReasoningStepOpenState \<Rightarrow> CarbonMessage" where
  "reasoning_message c st =
     (empty_message ''reasoning_steps'')
       \<lparr> reasoning_steps := Some \<lparr> steps = [\<lparr> step_content = c \<rparr>], openState = Some st \<rparr> \<rparr>"

definition createReasoningFromTrajectory :: "TrajectoryData \<Rightarrow> CarbonMessage" where
  "createReasoningFromTrajectory trajectory =
     (let content' = (case str_or (content trajectory) (title trajectory) of
                        None \<Rightarrow> [] | Some c \<Rightarrow> c)
      in reasoning_message
           (case title trajectory of
              None \<Rightarrow> content'
            | Some t \<Rightarrow> if t = [] then content'
                        else ''**'' @ t @ ''**'' @ [CHR 0x0A, CHR 0x0A] @ content')
           CLOSED)"

definition user_defined_message :: "string \<Rightarrow> (string \<times> json) list \<Rightarrow> CarbonMessage" where
  "user_defined_message rt ud = (empty_message rt) \<lparr> user_defined := Some ud \<rparr>"

definition createStatusFromTrajectory :: "TrajectoryData \<Rightarrow> CarbonMessage" where
  "createStatusFromTrajectory trajectory =
     user_defined_message ''user_defined''
       [(''type'', JStr ''status_message''),
        (''message'', str_json (str_or (title trajectory) (content trajectory))),
        (''metadata'', JObj [(''group_id'', str_json (group_id trajectory))])]"

text \<open>
  The local \<open>contentType\<close> of \<open>translateTrajectory\<close>:
  \<open>explicitType || inferredType || parsedContent.type\<close>.
\<close>

definition contentType :: "(string \<Rightarrow> json option) \<Rightarrow> TrajectoryData \<Rightarrow> string" where
  "contentType parse trajectory =
     (let explicitType = content_type trajectory;
          inferredType = inferContentTypeFromTitle (title trajectory);
          parsedContent = parseTrajectoryContent parse (content trajectory)
      in (case str_or explicitType inferredType of
            None \<Rightarrow> parsed_type parsedContent
          | Some ty \<Rightarrow> if ty = [] then parsed_type parsedContent else ty))"

definition translateTrajectory :: "(string \<Rightarrow> json option) \<Rightarrow> TrajectoryData \<Rightarrow> error + CarbonMessage option" where
  "translateTrajectory parse trajectory =
     (if \<not> present (title trajectory) \<and> \<not> present (content trajectory) then Inr None
      else
        (let parsedContent = parseTrajectoryContent parse (content trajectory);
             ty = contentType parse trajectory
         in if ty = TOOL_CALL then map_sum id Some (createToolCallFromTrajectory trajectory parsedContent)
            else if ty = TOOL_RESULT then map_sum id Some (createToolResultFromTrajectory trajectory parsedContent)
            else if ty = THINKING then Inr (Some (createReasoningFromTrajectory trajectory))
            else if ty = STATUS then Inr (Some (createStatusFromTrajectory trajectory))
            else if present (content trajectory) then Inr (Some (createReasoningFromTrajectory trajectory))
            else Inr None))"


text \<open>\<open>part.metadata?.k\<close>.\<close>

definition metadata_prop :: "(string \<times> json) list option \<Rightarrow> string \<Rightarrow> json" where
  "metadata_prop md k = (case md of None \<Rightarrow> JUndefined | Some kvs \<Rightarrow> lookup kvs k)"

definition translateMetadataPart :: "A2APart \<Rightarrow> CarbonMessage option" where
  "translateMetadataPart part =
     (let contentType' = metadata_prop (part_metadata part) ''content_type''
      in if contentType' = JStr THINKING then
           Some (reasoning_message (case part_text part of None \<Rightarrow> [] | Some t \<Rightarrow> t) CLOSED)
         else if contentType' = JStr RESPONSE then
           Some ((empty_message ''text'') \<lparr> msg_text := part_text part \<rparr>)
         else if contentType' = JStr STATUS then
           Some (user_defined_message ''user_defined''
             [(''type'', JStr ''status_message''),
              (''message'', str_json (part_text part)),
              (''metadata'', (case part_metadata part of None \<Rightarrow> JUndefined | Some kvs \<Rightarrow> JObj kvs))])
         else None)"

text \<open>\<open>v || `${pre}${a || dflt}${post}`\<close>, as the data-part titles are built.\<close>

definition value_or_template :: "json \<Rightarrow> string \<Rightarrow> json \<Rightarrow> string \<Rightarrow> string \<Rightarrow> error + json" where
  "value_or_template v pre a dflt post =
     (if truthy v then Inr v
      else (case js_to_string (js_or a (JStr dflt)) of
              Inl e \<Rightarrow> Inl e
            | Inr n \<Rightarrow> Inr (JStr (pre @ n @ post))))"

definition translateDataPart :: "A2APart \<Rightarrow> error + CarbonMessage option" where
  "translateDataPart part =
     (let data = part_data part; dataType = opt_prop data ''type''
      in if dataType = JStr ''tool_call'' then
           (case value_or_template (opt_prop data ''title'') ''Calling '' (opt_prop data ''tool_name'') ''tool'' [] of
              Inl e \<Rightarrow> Inl e
            | Inr ttl \<Rightarrow>
                Inr (Some (chain_message
                  \<lparr> step_title = ttl,
                    tool_name = opt_prop data ''tool_name'',
                    description = opt_prop data ''description'',
                    request = (if truthy (opt_prop data ''args'') then Some (opt_prop data ''args'') else None),
                    response = None,
                    status = PROCESSING \<rparr>)))
         else if dataType = JStr ''tool_result'' then
           (case value_or_template (opt_prop data ''title'') [] (opt_prop data ''tool_name'') ''Tool'' '' completed'' of
              Inl e \<Rightarrow> Inl e
            | Inr ttl \<Rightarrow>
                Inr (Some (chain_message
                  \<lparr> step_title = ttl,
                    tool_name = opt_prop data ''tool_name'',
                    description = opt_prop data ''description'',
                    request = (if truthy (opt_prop data ''args'') then Some (opt_prop data ''args'') else None),
                    response = (if truthy (opt_prop data ''result'') then Some (opt_prop data ''result'') else None),
                    status = (if truthy (opt_prop data ''error'') then ERROR else SUCCESS) \<rparr>)))
         else Inr None)"

definition base64ToDataUrl :: "string \<Rightarrow> string \<Rightarrow> string" where
  "base64ToDataUrl base64 mime = ''data:'' @ mime @ '';base64,'' @ base64"

text \<open>\<open>part.file.uri || this.base64ToDataUrl(part.file.bytes || '', mimeType)\<close>.\<close>

definition file_url :: "A2AFile \<Rightarrow> string" where
  "file_url f =
     (case uri f of
        None \<Rightarrow> base64ToDataUrl (case bytes f of None \<Rightarrow> [] | Some b \<Rightarrow> b) (mimeType f)
      | Some u \<Rightarrow>
          if u = [] then base64ToDataUrl (case bytes f of None \<Rightarrow> [] | Some b \<Rightarrow> b) (mimeType f)
          else u)"

definition translateFilePart :: "A2APart \<Rightarrow> A2AArtifact option \<Rightarrow> CarbonMessage option" where
  "translateFilePart part artifact =
     (case part_file part of
        None \<Rightarrow> None
      | Some f \<Rightarrow>
          if startsWith (mimeType f) ''image/'' then
            Some (user_defined_message ''image''
              [(''type'', JStr ''image''),
               (''url'', JStr (file_url f)),
               (''alt'', JStr (file_name f)),
               (''caption'', str_json (Option.bind artifact artifact_description))])
          else if str_includes (file_name f) ''chart'' \<or> str_includes (file_name f) ''graph'' then
            Some (user_defined_message ''user_defined''
              [(''type'', JStr ''chart''),
               (''imageUrl'', JStr (file_url f)),
               (''title'', str_json (Option.bind artifact artifact_name)),
               (''description'', str_json (Option.bind artifact artifact_description))])
          else
            Some (user_defined_message ''user_defined''
              [(''type'', JStr ''file_attachment''),
               (''fileName'', JStr (file_name f)),
               (''mimeType'', JStr (mimeType f)),
               (''downloadUrl'', str_json (uri f)),
               (''size'', (case bytes f of None \<Rightarrow> JUndefined | Some b \<Rightarrow> JNum (int (length b))))]))"

text \<open>\<open>Array.isArray(data) && data.length > 0 && typeof data[0] === 'object'\<close>.\<close>

fun is_table :: "json \<Rightarrow> bool" where
  "is_table (JArr (x # xs)) = typeof_object x"
| "is_table v = False"

fun first_element :: "json \<Rightarrow> json" where
  "first_element (JArr (x # xs)) = x"
| "first_element v = JUndefined"

definition translateGenericDataPart :: "A2APart \<Rightarrow> error + CarbonMessage option" where
  "translateGenericDataPart part =
     (let data = part_data part
      in if \<not> truthy data then Inr None
         else if is_table data then
           (case object_keys (first_element data) of
              Inl e \<Rightarrow> Inl e
            | Inr columns \<Rightarrow>
                Inr (Some (user_defined_message ''user_defined''
                  [(''type'', JStr ''data_table''), (''columns'', columns), (''rows'', data)])))
         else
           Inr (Some (user_defined_message ''user_defined''
             [(''type'', JStr ''structured_data''), (''data'', data)])))"

text \<open>\<open>if (message && extensionMetadata) message.metadata = extensionMetadata\<close>.\<close>

definition with_metadata :: "CarbonMessage option \<Rightarrow> (string \<times> json) list option \<Rightarrow> CarbonMessage option" where
  "with_metadata message extensionMetadata =
     (case message of
        None \<Rightarrow> None
      | Some m \<Rightarrow>
          (case extensionMetadata of
             None \<Rightarrow> Some m
           | Some md \<Rightarrow> Some (m \<lparr> msg_metadata := Some md \<rparr>)))"

definition translatePart ::
  "(string \<Rightarrow> json option) \<Rightarrow> A2APart \<Rightarrow> A2AArtifact option \<Rightarrow> error + CarbonMessage option" where
  "translatePart parse part artifact =
     (let extensionMetadata = Option.bind artifact artifact_metadata
      in (case extractTrajectoryFromMetadata (part_metadata part) of
            Some partTrajectory \<Rightarrow> translateTrajectory parse partTrajectory
          | None \<Rightarrow>
              if truthy (metadata_prop (part_metadata part) ''content_type'') then
                Inr (with_metadata (translateMetadataPart part) extensionMetadata)
              else if kind part = ''data'' \<and> truthy (opt_prop (part_data part) ''type'') then
                map_sum id (\<lambda>m. with_metadata m extensionMetadata) (translateDataPart part)
              else if kind part = ''text'' then
                Inr (Some ((empty_message ''text'')
                  \<lparr> msg_text := part_text part, msg_metadata := extensionMetadata \<rparr>))
              else if kind part = ''file'' then
                Inr (with_metadata (translateFilePart part artifact) extensionMetadata)
              else if kind part = ''data'' then
                map_sum id (\<lambda>m. with_metadata m extensionMetadata) (translateGenericDataPart part)
              else Inr None))"

definition translateStreamingPart ::
  "(string \<Rightarrow> json option) \<Rightarrow> A2APart \<Rightarrow> (string \<times> json) list option \<Rightarrow> error + CarbonMessage option" where
  "translateStreamingPart parse part metadata =
     (case extractTrajectoryFromMetadata metadata of
        Some trajectoryData \<Rightarrow> translateTrajectory parse trajectoryData
      | None \<Rightarrow>
          translatePart parse part
            (case metadata of
               None \<Rightarrow> None
             | Some md \<Rightarrow>
                 Some \<lparr> artifactId = [], artifact_name = None, artifact_description = None,
                        parts = [], artifact_metadata = Some md \<rparr>))"

text \<open>
  The loops of \<open>translateTask\<close>, with the array \<open>messages\<close> as accumulator; an
  exception leaves both loops.
\<close>

fun translate_parts ::
  "(string \<Rightarrow> json option) \<Rightarrow> A2AArtifact \<Rightarrow> A2APart list \<Rightarrow> CarbonMessage list
    \<Rightarrow> error + CarbonMessage list" where
  "translate_parts parse artifact [] messages = Inr messages"
| "translate_parts parse artifact (part # rest) messages =
     (case translatePart parse part (Some artifact) of
        Inl e \<Rightarrow> Inl e
      | Inr None \<Rightarrow> translate_parts parse artifact rest messages
      | Inr (Some message) \<Rightarrow> translate_parts parse artifact rest (messages @ [message]))"

definition translate_artifact_trajectory ::
  "(string \<Rightarrow> json option) \<Rightarrow> A2AArtifact \<Rightarrow> CarbonMessage list \<Rightarrow> error + CarbonMessage list" where
  "translate_artifact_trajectory parse artifact messages =
     (case extractTrajectoryFromMetadata (artifact_metadata artifact) of
        None \<Rightarrow> Inr messages
      | Some artifactTrajectory \<Rightarrow>
          (case translateTrajectory parse artifactTrajectory of
             Inl e \<Rightarrow> Inl e
           | Inr None \<Rightarrow> Inr messages
           | Inr (Some trajectoryMessage) \<Rightarrow> Inr (messages @ [trajectoryMessage])))"

fun translate_artifacts ::
  "(string \<Rightarrow> json option) \<Rightarrow> A2AArtifact list \<Rightarrow> CarbonMessage list \<Rightarrow> error + CarbonMessage list" where
  "translate_artifacts parse [] messages = Inr messages"
| "translate_artifacts parse (artifact # rest) messages =
     (case translate_artifact_trajectory parse artifact messages of
        Inl e \<Rightarrow> Inl e
      | Inr messages1 \<Rightarrow>
          (case translate_parts parse artifact (parts artifact) messages1 of
             Inl e \<Rightarrow> Inl e
           | Inr messages2 \<Rightarrow> translate_artifacts parse rest messages2))"

definition translateTask :: "(string \<Rightarrow> json option) \<Rightarrow> A2ATask \<Rightarrow> error + CarbonMessage list" where
  "translateTask parse task = translate_artifacts parse (artifacts task) []"

subsection \<open>Static factory methods\<close>

definition createToolCallMessage :: "string \<Rightarrow> json \<Rightarrow> string option \<Rightarrow> CarbonMessage" where
  "createToolCallMessage name args' description' =
     chain_message
       \<lparr> step_title = JStr (''Calling '' @ name),
         tool_name = JStr name,
         description = str_json description',
         request = (if truthy args' then Some args' else None),
         response = None,
         status = PROCESSING \<rparr>"

definition createToolResultMessage ::
  "string \<Rightarrow> json \<Rightarrow> json \<Rightarrow> bool \<Rightarrow> string option \<Rightarrow> CarbonMessage" where
  "createToolResultMessage name result' args' error' description' =
     chain_message
       \<lparr> step_title = JStr (name @ '' '' @ (if error' then ''failed'' else ''completed'')),
         tool_name = JStr name,
         description = str_json description',
         request = (if truthy args' then Some args' else None),
         response = Some result',
         status = (if error' then ERROR else SUCCESS) \<rparr>"

definition createReasoningMessage :: "string \<Rightarrow> ReasoningStepOpenState \<Rightarrow> CarbonMessage" where
  "createReasoningMessage content' openState' = reasoning_message content' openState'"

section \<open>The citation extractor\<close>

text \<open>\<open>xs.filter(item => typeof item === 'object' && item !== null)\<close>.\<close>

definition filter_objects :: "json list \<Rightarrow> json list" where
  "filter_objects xs = filter (\<lambda>item. typeof_object item \<and> item \<noteq> JNull) xs"



section \<open>Observations and sample inputs\<close>

text \<open>A property of the \<open>user_defined\<close> payload, and the steps of a chain of thought.\<close>

definition ud_prop :: "CarbonMessage \<Rightarrow> string \<Rightarrow> json" where
  "ud_prop m k = (case user_defined m of None \<Rightarrow> JUndefined | Some kvs \<Rightarrow> lookup kvs k)"

definition steps_of :: "CarbonMessage \<Rightarrow> ChainOfThoughtStep list" where
  "steps_of m = (case chain_of_thought m of None \<Rightarrow> [] | Some ss \<Rightarrow> ss)"

definition sample_pdf :: A2APart where
  "sample_pdf =
     \<lparr> kind = ''file'', part_text = None,
       part_file = Some \<lparr> file_name = ''report.pdf'', mimeType = ''application/pdf'',
         bytes = Some ''QUJD'', uri = None \<rparr>,
       part_data = JUndefined, part_metadata = None \<rparr>"

definition null_row_part :: A2APart where
  "null_row_part =
     \<lparr> kind = ''data'', part_text = None, part_file = None,
       part_data = JArr [JNull], part_metadata = None \<rparr>"

text \<open>
  \<open>JSON.parse\<close> where it rejects its argument; the samples that use it hold no code
  block, or none whose body is JSON.
\<close>

definition rejecting_parse :: "string \<Rightarrow> json option" where
  "rejecting_parse s = None"


definition lookup_failed :: TrajectoryData where
  "lookup_failed =
     \<lparr> title = Some ''Lookup FAILED'', content = Some ''done'', group_id = None,
       content_type = Some ''tool_result'' \<rparr>"

definition search_web_result :: TrajectoryData where
  "search_web_result =
     \<lparr> title = Some ''search_web Result'', content = Some ''Error: timeout'', group_id = None,
       content_type = None \<rparr>"

text \<open>
  \<open>JSON.parse\<close> on the one JSON text of the samples; no other text is parsed there.
\<close>

definition sample_parse :: "string \<Rightarrow> json option" where
  \<open>sample_parse s =
     (if s = ''{"type": "tool_call", "tool_name": "search_web"}''
      then Some (JObj [(''type'', JStr ''tool_call''), (''tool_name'', JStr ''search_web'')])
      else None)\<close>

definition tagged_result :: TrajectoryData where
  \<open>tagged_result =
     \<lparr> title = Some ''Calling search_web'',
       content = Some ''**Result:** ```json {"type": "tool_call", "tool_name": "search_web"} ```'',
       group_id = None,
       content_type = Some ''tool_result'' \<rparr>\<close>

text \<open>The same content under a title that names a result, and under one that names nothing.\<close>

definition titled_result :: TrajectoryData where
  "titled_result = tagged_result \<lparr> title := Some ''search_web Result'', content_type := None \<rparr>"

definition untitled_call :: TrajectoryData where
  "untitled_call = tagged_result \<lparr> title := Some ''Step 1'', content_type := None \<rparr>"

text \<open>
  The messages one artifact contributes, and whether translating it throws; a task for
  the batch translator.
\<close>

definition returned :: "error + 'a option \<Rightarrow> 'a list" where
  "returned r = (case r of Inr (Some m) \<Rightarrow> [m] | _ \<Rightarrow> [])"

definition trajectory_messages :: "(string \<Rightarrow> json option) \<Rightarrow> A2AArtifact \<Rightarrow> CarbonMessage list" where
  "trajectory_messages parse a =
     (case extractTrajectoryFromMetadata (artifact_metadata a) of
        None \<Rightarrow> []
      | Some tr \<Rightarrow> returned (translateTrajectory parse tr))"

definition part_messages :: "(string \<Rightarrow> json option) \<Rightarrow> A2AArtifact \<Rightarrow> CarbonMessage list" where
  "part_messages parse a = concat (map (\<lambda>p. returned (translatePart parse p (Some a))) (parts a))"

definition artifact_throws :: "(string \<Rightarrow> json option) \<Rightarrow> A2AArtifact \<Rightarrow> bool" where
  "artifact_throws parse a =
     ((case extractTrajectoryFromMetadata (artifact_metadata a) of
         None \<Rightarrow> False
       | Some tr \<Rightarrow> isl (translateTrajectory parse tr)) \<or>
      (\<exists>p \<in> set (parts a). isl (translatePart parse p (Some a))))"

definition sample_task :: A2ATask where
  "sample_task =
     \<lparr> task_id = ''task-1'', task_state = ''completed'',
       artifacts =
         [\<lparr> artifactId = ''a1'', artifact_name = None, artifact_description = None,
            parts = [\<lparr> kind = ''text'', part_text = Some ''Hello'', part_file = None,
                       part_data = JUndefined, part_metadata = None \<rparr>],
            artifact_metadata =
              Some [(TRAJECTORY, JObj [(''title'', JStr ''Thinking''),
                                       (''content'', JStr ''Planning the search'')])] \<rparr>,
          \<lparr> artifactId = ''a2'', artifact_name = None, artifact_description = None,
            parts = [\<lparr> kind = ''file'', part_text = None,
                       part_file = Some \<lparr> file_name = ''photo.png'', mimeType = ''image/png'',
                                           bytes = None, uri = Some ''https://example.com/p.png'' \<rparr>,
                       part_data = JUndefined, part_metadata = None \<rparr>],
            artifact_metadata = None \<rparr>],
       history = [] \<rparr>"

text \<open>
  The payload fields of a message that hold a value, by name, and the payload field that
  the translator uses for a response type.
\<close>

definition populated :: "CarbonMessage \<Rightarrow> string list" where
  "populated m =
     (if msg_text m = None then [] else [''text'']) @
     (if reasoning_steps m = None then [] else [''reasoning_steps'']) @
     (if chain_of_thought m = None then [] else [''chain_of_thought'']) @
     (if user_defined m = None then [] else [''user_defined''])"

definition payload_field :: "string \<Rightarrow> string" where
  "payload_field rt = (if rt = ''image'' then ''user_defined'' else rt)"

definition payload_matches :: "CarbonMessage \<Rightarrow> bool" where
  "payload_matches m =
     (populated m = [payload_field (response_type m)] \<or>
      (response_type m = ''text'' \<and> populated m = []))"

definition sample_image :: A2APart where
  "sample_image =
     \<lparr> kind = ''file'', part_text = None,
       part_file = Some \<lparr> file_name = ''photo.png'', mimeType = ''image/png'',
         bytes = None, uri = Some ''https://example.com/p.png'' \<rparr>,
       part_data = JUndefined, part_metadata = None \<rparr>"

definition sample_image_message :: CarbonMessage where
  "sample_image_message =
     \<lparr> response_type = ''image'', msg_text = None, reasoning_steps = None,
       chain_of_thought = None,
       user_defined = Some [(''type'', JStr ''image''), (''url'', JStr ''https://example.com/p.png''),
         (''alt'', JStr ''photo.png''), (''caption'', JUndefined)],
       msg_metadata = None \<rparr>"

definition textless_part :: A2APart where
  "textless_part =
     \<lparr> kind = ''text'', part_text = None, part_file = None, part_data = JUndefined,
       part_metadata = None \<rparr>"

definition sample_task_messages :: "CarbonMessage list" where
  "sample_task_messages =
     [reasoning_message (''**Thinking**'' @ [CHR 0x0A, CHR 0x0A] @ ''Planning the search'') CLOSED,
      \<lparr> response_type = ''text'', msg_text = Some ''Hello'', reasoning_steps = None,
        chain_of_thought = None, user_defined = None,
        msg_metadata = Some [(TRAJECTORY, JObj [(''title'', JStr ''Thinking''),
                                       (''content'', JStr ''Planning the search'')])] \<rparr>,
      sample_image_message]"






section \<open>The streaming accumulator\<close>

text \<open>
  Modelled from the spec: the chunk that the streaming accumulator consumes. The
  accumulator itself (\<open>translateStreamChunk\<close> in \<open>lib/translator/a2a-to-carbon.ts\<close>)
  is not among the sources, which only call it. A chunk bears its correlation key, its
  status and the fields of a step that it sets.
\<close>

record Chunk =
  chunk_key :: string
  chunk_status :: ChainOfThoughtStepStatus
  chunk_title :: "string option"
  chunk_tool_name :: "string option"
  chunk_description :: "string option"
  chunk_request :: "json option"
  chunk_response :: "json option"

text \<open>
  Modelled from the spec: the deltas of section 4.4, each naming the item (the index of
  its step, in creation order) and the correlation key.
\<close>

datatype delta = Opened nat string | Updated nat string | Finalized nat string

text \<open>
  Modelled from the spec: the session accumulator state of section 3, a map from
  correlation key to the step in progress for it, with every step built so far and the
  deltas emitted so far, in order.
\<close>

record Accumulator =
  in_progress :: "string \<rightharpoonup> nat"
  built :: "ChainOfThoughtStep list"
  deltas :: "delta list"

text \<open>Modelled from the spec: the state when a response stream starts.\<close>

definition new_accumulator :: Accumulator where
  "new_accumulator = \<lparr> in_progress = Map.empty, built = [], deltas = [] \<rparr>"

text \<open>
  Modelled from the spec: merging a chunk into a step, section 4.4. A field that the chunk
  sets replaces the field of the step, the description only by a non-empty text; the
  status is not touched here.
\<close>

definition merge_chunk :: "ChainOfThoughtStep \<Rightarrow> Chunk \<Rightarrow> ChainOfThoughtStep" where
  "merge_chunk step c =
     step \<lparr> step_title := (case chunk_title c of None \<Rightarrow> step_title step | Some t \<Rightarrow> JStr t),
            tool_name := (case chunk_tool_name c of None \<Rightarrow> tool_name step | Some n \<Rightarrow> JStr n),
            description := (if present (chunk_description c) then str_json (chunk_description c)
                            else description step),
            request := (case chunk_request c of None \<Rightarrow> request step | Some a \<Rightarrow> Some a),
            response := (case chunk_response c of None \<Rightarrow> response step | Some r \<Rightarrow> Some r) \<rparr>"

text \<open>Modelled from the spec: the step a first chunk creates, in processing state.\<close>

definition opened_step :: "Chunk \<Rightarrow> ChainOfThoughtStep" where
  "opened_step c =
     merge_chunk \<lparr> step_title = JUndefined, tool_name = JUndefined, description = JUndefined,
                   request = None, response = None, status = PROCESSING \<rparr> c"

text \<open>
  Modelled from the spec: one transition of the state machine of section 4.4. A chunk for a
  key with no step in progress opens a new step in processing state (so does a chunk for
  a key whose step was finalized: it is a new correlation). A chunk for a key in progress
  is merged into its step. A chunk that carries a terminal status then moves the step to
  that status, emits the finalizing delta and ends the correlation; any other chunk for a
  key in progress emits an update.
\<close>

definition feed :: "Accumulator \<Rightarrow> Chunk \<Rightarrow> Accumulator" where
  "feed s c =
     (let k = chunk_key c;
          s1 = (case in_progress s k of
                  None \<Rightarrow>
                    s \<lparr> in_progress := (in_progress s)(k \<mapsto> length (built s)),
                        built := built s @ [opened_step c],
                        deltas := deltas s @ [Opened (length (built s)) k] \<rparr>
                | Some i \<Rightarrow>
                    s \<lparr> built := (built s)[i := merge_chunk (built s ! i) c],
                        deltas := (if chunk_status c = PROCESSING
                                   then deltas s @ [Updated i k] else deltas s) \<rparr>)
      in if chunk_status c = PROCESSING then s1
         else (case in_progress s1 k of
                 None \<Rightarrow> s1
               | Some i \<Rightarrow>
                   s1 \<lparr> in_progress := (in_progress s1)(k := None),
                         built := (built s1)[i := (built s1 ! i) \<lparr> status := chunk_status c \<rparr>],
                         deltas := deltas s1 @ [Finalized i k] \<rparr>))"

text \<open>Modelled from the spec: chunks are consumed in order.\<close>

definition feed_all :: "Accumulator \<Rightarrow> Chunk list \<Rightarrow> Accumulator" where
  "feed_all s cs = foldl feed s cs"

text \<open>
  The steps in progress are in processing state, and two keys never share a step.
\<close>

definition consistent :: "Accumulator \<Rightarrow> bool" where
  "consistent s =
     (\<forall>k i. in_progress s k = Some i \<longrightarrow>
        i < length (built s) \<and> status (built s ! i) = PROCESSING \<and>
        (\<forall>k'. in_progress s k' = Some i \<longrightarrow> k' = k))"

text \<open>Two chunks of one tool call, and a third that reuses their key.\<close>

definition search_started :: Chunk where
  "search_started =
     \<lparr> chunk_key = ''g1'', chunk_status = PROCESSING, chunk_title = Some ''Calling search_web'',
       chunk_tool_name = Some ''search_web'', chunk_description = None,
       chunk_request = Some (JObj [(''query'', JStr ''a2a'')]), chunk_response = None \<rparr>"

definition search_finished :: Chunk where
  "search_finished =
     \<lparr> chunk_key = ''g1'', chunk_status = SUCCESS, chunk_title = None,
       chunk_tool_name = None, chunk_description = None,
       chunk_request = None, chunk_response = Some (JStr ''3 results'') \<rparr>"

definition search_late :: Chunk where
  "search_late =
     \<lparr> chunk_key = ''g1'', chunk_status = ERROR, chunk_title = Some ''search_web failed'',
       chunk_tool_name = None, chunk_description = None,
       chunk_request = None, chunk_response = None \<rparr>"

section \<open>Verified properties\<close>

subsection \<open>File parts\<close>

text \<open>
  Claim C7. A file part always yields a message. A MIME type that starts with
  \<open>image/\<close> gives an image message, before the name is looked at; otherwise a name
  that contains \<open>chart\<close> or \<open>graph\<close>, compared as it is written, gives a chart message;
  otherwise the message is a file attachment whose size is the length of the base64
  payload, and is absent when there is no payload.
\<close>

theorem translateFilePart_kinds:
  assumes "part_file part = Some f"
  shows "case translateFilePart part artifact of
           None \<Rightarrow> False
         | Some m \<Rightarrow>
             if startsWith (mimeType f) ''image/'' then
               response_type m = ''image'' \<and> ud_prop m ''type'' = JStr ''image''
             else if str_includes (file_name f) ''chart'' \<or> str_includes (file_name f) ''graph'' then
               response_type m = ''user_defined'' \<and> ud_prop m ''type'' = JStr ''chart''
             else
               response_type m = ''user_defined'' \<and> ud_prop m ''type'' = JStr ''file_attachment'' \<and>
               ud_prop m ''size'' = (case bytes f of None \<Rightarrow> JUndefined | Some b \<Rightarrow> JNum (int (length b)))"
  using assms
  by (simp add: translateFilePart_def user_defined_message_def empty_message_def ud_prop_def lookup_def)

theorem translateFilePart_kinds_witness:
  "part_file sample_pdf = Some \<lparr> file_name = ''report.pdf'', mimeType = ''application/pdf'',
       bytes = Some ''QUJD'', uri = None \<rparr> \<and>
   map_option (\<lambda>m. (response_type m, ud_prop m ''type'', ud_prop m ''size''))
     (translateFilePart sample_pdf None)
     = Some (''user_defined'', JStr ''file_attachment'', JNum 4)"
proof -
  have f: "part_file sample_pdf = Some \<lparr> file_name = ''report.pdf'', mimeType = ''application/pdf'',
       bytes = Some ''QUJD'', uri = None \<rparr>"
    by (simp add: sample_pdf_def)
  have i: "\<not> startsWith ''application/pdf'' ''image/''" by (simp add: startsWith_def)
  have c: "\<not> str_includes ''report.pdf'' ''chart''" "\<not> str_includes ''report.pdf'' ''graph''"
    by (simp_all add: startsWith_def)
  from translateFilePart_kinds [OF f, of None] i c f show ?thesis
    by (auto split: option.splits)
qed

subsection \<open>Data parts\<close>

text \<open>
  Claim C6. The data payload \<open>[null]\<close> is an array whose first element has
  \<open>typeof\<close> \<open>'object'\<close>, so the tabular branch is taken and \<open>Object.keys(null)\<close>
  throws a TypeError: no message is produced, by \<open>translateGenericDataPart\<close> or by
  \<open>translatePart\<close>.
\<close>

theorem translateGenericDataPart_null_row:
  "translateGenericDataPart null_row_part = Inl TypeError \<and>
   translatePart parse null_row_part artifact = Inl TypeError"
  by (simp add: translateGenericDataPart_def null_row_part_def translatePart_def
      extractTrajectoryFromMetadata_def metadata_prop_def)

text \<open>
  With an object as first element the columns are its keys and the rows are the
  payload; a payload that is not such an array is passed through as structured data.
\<close>

lemma translateGenericDataPart_object_row:
  "translateGenericDataPart (part \<lparr> part_data := JArr (JObj kvs # rows) \<rparr>) =
     Inr (Some (user_defined_message ''user_defined''
       [(''type'', JStr ''data_table''),
        (''columns'', JArr (map (\<lambda>kv. JStr (fst kv)) kvs)),
        (''rows'', JArr (JObj kvs # rows))]))"
  by (simp add: translateGenericDataPart_def)

lemma translateGenericDataPart_two_rows:
  "translateGenericDataPart
     \<lparr> kind = ''data'', part_text = None, part_file = None,
       part_data = JArr [JObj [(''a'', JNum 1), (''b'', JNum 2)],
                         JObj [(''a'', JNum 3), (''c'', JNum 4)]],
       part_metadata = None \<rparr> =
     Inr (Some (user_defined_message ''user_defined''
       [(''type'', JStr ''data_table''),
        (''columns'', JArr [JStr ''a'', JStr ''b'']),
        (''rows'', JArr [JObj [(''a'', JNum 1), (''b'', JNum 2)],
                         JObj [(''a'', JNum 3), (''c'', JNum 4)]])]))"
  by (simp add: translateGenericDataPart_def)

lemma translateGenericDataPart_opaque:
  "truthy (part_data part) \<Longrightarrow> \<not> is_table (part_data part) \<Longrightarrow>
   translateGenericDataPart part =
     Inr (Some (user_defined_message ''user_defined''
       [(''type'', JStr ''structured_data''), (''data'', part_data part)]))"
  by (simp add: translateGenericDataPart_def)

subsection \<open>Tool calls\<close>







subsection \<open>Tool results\<close>

lemma translateTrajectory_tool_result:
  "present (title t) \<or> present (content t) \<Longrightarrow> contentType parse t = TOOL_RESULT \<Longrightarrow>
   translateTrajectory parse t =
     map_sum id Some (createToolResultFromTrajectory t (parseTrajectoryContent parse (content t)))"
  by (auto simp: translateTrajectory_def Let_def TOOL_CALL_def TOOL_RESULT_def)

text \<open>
  Claim C4, as stated, at the tool result titled \<open>Lookup FAILED\<close> with content
  \<open>done\<close>: the step has error status, although the parsed status is not \<open>error\<close>,
  the content does not contain \<open>error\<close> in any case, and the title does not contain
  the substring \<open>failed\<close>.
\<close>

theorem tool_result_status_counterexample:
  "createToolResultFromTrajectory lookup_failed (parsed_only ''text'') =
     Inr (chain_message
       \<lparr> step_title = JStr ''Lookup FAILED'', tool_name = JStr ''tool'',
         description = JStr ''done'', request = None, response = None, status = ERROR \<rparr>) \<and>
   translateTrajectory rejecting_parse lookup_failed =
     Inr (Some (chain_message
       \<lparr> step_title = JStr ''Lookup FAILED'', tool_name = JStr ''tool'',
         description = JStr ''done'', request = None, response = None, status = ERROR \<rparr>)) \<and>
   parsed_status (parsed_only ''text'') \<noteq> JStr ''error'' \<and>
   \<not> str_includes (toLowerCase ''done'') ''error'' \<and>
   \<not> str_includes ''Lookup FAILED'' ''failed''"
  by code_simp

text \<open>
  Claim C4, amended. The step built for a tool result has error status exactly when the
  parsed status is \<open>error\<close>, or the content contains \<open>error\<close> in any case, or the
  title contains \<open>failed\<close> in any case; otherwise it has success status. A trajectory
  titled \<open>search_web Result\<close> with no explicit tag whose content contains \<open>error\<close>
  is a tool result with error status.
\<close>

theorem tool_result_status:
  "(case createToolResultFromTrajectory t pc of
      Inl e \<Rightarrow> \<not> present (title t)
    | Inr m \<Rightarrow>
        response_type m = ''chain_of_thought'' \<and>
        map status (steps_of m) =
          [if parsed_status pc = JStr ''error'' \<or>
              (\<exists>c. content t = Some c \<and> str_includes (toLowerCase c) ''error'') \<or>
              (\<exists>s. title t = Some s \<and> str_includes (toLowerCase s) ''failed'')
           then ERROR else SUCCESS]) \<and>
   (title t = Some ''search_web Result'' \<longrightarrow> \<not> present (content_type t) \<longrightarrow>
    content t = Some c \<longrightarrow> str_includes (toLowerCase c) ''error'' \<longrightarrow>
      contentType parse t = TOOL_RESULT \<and>
      (case translateTrajectory parse t of
         Inr (Some m) \<Rightarrow> map status (steps_of m) = [ERROR]
       | _ \<Rightarrow> False))"
proof (intro conjI impI)
  show "case createToolResultFromTrajectory t pc of
      Inl e \<Rightarrow> \<not> present (title t)
    | Inr m \<Rightarrow>
        response_type m = ''chain_of_thought'' \<and>
        map status (steps_of m) =
          [if parsed_status pc = JStr ''error'' \<or>
              (\<exists>c. content t = Some c \<and> str_includes (toLowerCase c) ''error'') \<or>
              (\<exists>s. title t = Some s \<and> str_includes (toLowerCase s) ''failed'')
           then ERROR else SUCCESS]"
    by (auto simp: createToolResultFromTrajectory_def title_or_template_def chain_message_def
        steps_of_def empty_message_def isError_def Let_def
        split: sum.splits option.splits)
next
  assume t: "title t = Some ''search_web Result''" and e: "\<not> present (content_type t)"
    and c: "content t = Some c" and i: "str_includes (toLowerCase c) ''error''"
  have inf: "inferContentTypeFromTitle (Some ''search_web Result'') = Some TOOL_RESULT"
    by code_simp
  from t e inf show ct: "contentType parse t = TOOL_RESULT"
    by (simp add: contentType_def str_or_def TOOL_RESULT_def)
  from t have "present (title t) \<or> present (content t)" by simp
  from translateTrajectory_tool_result [OF this ct] t c i
  show "case translateTrajectory parse t of
         Inr (Some m) \<Rightarrow> map status (steps_of m) = [ERROR]
       | _ \<Rightarrow> False"
    by (simp add: createToolResultFromTrajectory_def title_or_template_def chain_message_def
        steps_of_def empty_message_def isError_def Let_def str_json_def)
qed

theorem tool_result_status_witness:
  "title search_web_result = Some ''search_web Result'' \<and>
   \<not> present (content_type search_web_result) \<and>
   content search_web_result = Some ''Error: timeout'' \<and>
   str_includes (toLowerCase ''Error: timeout'') ''error'' \<and>
   contentType rejecting_parse search_web_result = TOOL_RESULT \<and>
   map_sum id (map_option (\<lambda>m. map status (steps_of m)))
     (translateTrajectory rejecting_parse search_web_result) = Inr (Some [ERROR])"
proof -
  have h: "title search_web_result = Some ''search_web Result''"
    "\<not> present (content_type search_web_result)"
    "content search_web_result = Some ''Error: timeout''"
    by (simp_all add: search_web_result_def)
  have i: "str_includes (toLowerCase ''Error: timeout'') ''error''" by code_simp
  from tool_result_status [of search_web_result "parsed_only ''text''" "''Error: timeout''" rejecting_parse,
      THEN conjunct2] h i
  have "contentType rejecting_parse search_web_result = TOOL_RESULT \<and>
      (case translateTrajectory rejecting_parse search_web_result of
         Inr (Some m) \<Rightarrow> map status (steps_of m) = [ERROR]
       | _ \<Rightarrow> False)"
    by blast
  with h i show ?thesis by (auto split: sum.splits option.splits)
qed

subsection \<open>Classification of a trajectory\<close>

text \<open>
  Claim C1. The content kind of a trajectory is resolved in a fixed order. A non-empty
  explicit \<open>content_type\<close> is the kind, whatever the title and the content say. Without
  it, a kind inferred from the title is the kind, whatever the content says. Without
  both, the kind is the one found in the content, where a JSON object in a code block
  that is marked \<open>tool_call\<close> or \<open>tool_result\<close> decides before any keyword of the text
  is looked at, and the keywords decide only when there is no such block, its body does
  not parse, or the parsed value carries no such mark. In particular a trajectory tagged
  \<open>tool_result\<close> is translated as a tool result, whatever its embedded JSON says.
\<close>

theorem contentType_precedence:
  "(content_type t = Some ty \<longrightarrow> ty \<noteq> [] \<longrightarrow> contentType parse t = ty) \<and>
   (\<not> present (content_type t) \<longrightarrow> inferContentTypeFromTitle (title t) = Some ty \<longrightarrow>
      contentType parse t = ty) \<and>
   (\<not> present (content_type t) \<longrightarrow> inferContentTypeFromTitle (title t) = None \<longrightarrow>
      contentType parse t = parsed_type (parseTrajectoryContent parse (content t))) \<and>
   (c \<noteq> [] \<longrightarrow> match_code_block c = Some body \<longrightarrow> parse (trim body) = Some (JObj kvs) \<longrightarrow>
      parsed_type (parseTrajectoryContent parse (Some c)) =
        (if lookup kvs ''type'' = JStr ''tool_call'' \<or> lookup kvs ''content_type'' = JStr ''tool_call''
         then ''tool_call''
         else if lookup kvs ''type'' = JStr ''tool_result'' \<or>
                 lookup kvs ''content_type'' = JStr ''tool_result''
         then ''tool_result''
         else parsed_type (content_patterns c))) \<and>
   (c \<noteq> [] \<longrightarrow>
    (case match_code_block c of
       None \<Rightarrow> True
     | Some b \<Rightarrow> (case parse (trim b) of
                    None \<Rightarrow> True
                  | Some parsed \<Rightarrow> parsed_block parsed = Inl TypeError \<or> parsed_block parsed = Inr None)) \<longrightarrow>
      parseTrajectoryContent parse (Some c) = content_patterns c) \<and>
   (content_type t = Some ''tool_result'' \<longrightarrow> present (title t) \<or> present (content t) \<longrightarrow>
      contentType parse t = TOOL_RESULT \<and>
      translateTrajectory parse t =
        map_sum id Some (createToolResultFromTrajectory t (parseTrajectoryContent parse (content t))))"
proof (intro conjI impI)
  assume "content_type t = Some ty" "ty \<noteq> []"
  then show "contentType parse t = ty"
    by (simp add: contentType_def str_or_def)
next
  assume "\<not> present (content_type t)" "inferContentTypeFromTitle (title t) = Some ty"
  moreover from this(2) have "ty \<noteq> []"
    by (auto simp: inferContentTypeFromTitle_def Let_def TOOL_CALL_def TOOL_RESULT_def
        THINKING_def STATUS_def split: option.splits if_splits)
  ultimately show "contentType parse t = ty"
    by (simp add: contentType_def str_or_def)
next
  assume "\<not> present (content_type t)" "inferContentTypeFromTitle (title t) = None"
  then show "contentType parse t = parsed_type (parseTrajectoryContent parse (content t))"
    by (simp add: contentType_def str_or_def)
next
  assume "c \<noteq> []" "match_code_block c = Some body" "parse (trim body) = Some (JObj kvs)"
  then show "parsed_type (parseTrajectoryContent parse (Some c)) =
        (if lookup kvs ''type'' = JStr ''tool_call'' \<or> lookup kvs ''content_type'' = JStr ''tool_call''
         then ''tool_call''
         else if lookup kvs ''type'' = JStr ''tool_result'' \<or>
                 lookup kvs ''content_type'' = JStr ''tool_result''
         then ''tool_result''
         else parsed_type (content_patterns c))"
    by (simp add: parseTrajectoryContent_def parsed_block_def Let_def)
next
  assume "c \<noteq> []"
    "case match_code_block c of
       None \<Rightarrow> True
     | Some b \<Rightarrow> (case parse (trim b) of
                    None \<Rightarrow> True
                  | Some parsed \<Rightarrow> parsed_block parsed = Inl TypeError \<or> parsed_block parsed = Inr None)"
  then show "parseTrajectoryContent parse (Some c) = content_patterns c"
    by (auto simp: parseTrajectoryContent_def Let_def split: option.splits)
next
  assume a: "content_type t = Some ''tool_result''" "present (title t) \<or> present (content t)"
  from a(1) show ct: "contentType parse t = TOOL_RESULT"
    by (simp add: contentType_def str_or_def TOOL_RESULT_def)
  from a(2) ct show "translateTrajectory parse t =
        map_sum id Some (createToolResultFromTrajectory t (parseTrajectoryContent parse (content t)))"
    by (auto simp: translateTrajectory_def Let_def TOOL_CALL_def TOOL_RESULT_def)
qed

theorem contentType_precedence_witness:
  "content_type tagged_result = Some ''tool_result'' \<and>
   (present (title tagged_result) \<or> present (content tagged_result)) \<and>
   inferContentTypeFromTitle (title tagged_result) = Some ''tool_call'' \<and>
   parsed_type (parseTrajectoryContent sample_parse (content tagged_result)) = ''tool_call'' \<and>
   contentType sample_parse tagged_result = ''tool_result'' \<and>
   translateTrajectory sample_parse tagged_result =
     Inr (Some (chain_message
       \<lparr> step_title = JStr ''Calling search_web'', tool_name = JStr ''search_web'',
         description = JStr ''**Result:**'', request = None, response = None,
         status = SUCCESS \<rparr>)) \<and>
   \<not> present (content_type titled_result) \<and>
   inferContentTypeFromTitle (title titled_result) = Some ''tool_result'' \<and>
   parsed_type (parseTrajectoryContent sample_parse (content titled_result)) = ''tool_call'' \<and>
   contentType sample_parse titled_result = ''tool_result'' \<and>
   \<not> present (content_type untitled_call) \<and>
   inferContentTypeFromTitle (title untitled_call) = None \<and>
   (case content untitled_call of None \<Rightarrow> False
    | Some c \<Rightarrow> parsed_type (content_patterns c) = ''tool_result'') \<and>
   contentType sample_parse untitled_call = ''tool_call''"
proof -
  have h: "content_type tagged_result = Some ''tool_result''"
    "present (title tagged_result) \<or> present (content tagged_result)"
    by (simp_all add: tagged_result_def)
  have i: "inferContentTypeFromTitle (title tagged_result) = Some ''tool_call''" by code_simp
  have p: "parseTrajectoryContent sample_parse (content tagged_result) =
      \<lparr> parsed_type = ''tool_call'', toolName = JStr ''search_web'', args = JUndefined,
        result = JUndefined, parsed_status = JUndefined \<rparr>"
    by code_simp
  have r: "createToolResultFromTrajectory tagged_result
      \<lparr> parsed_type = ''tool_call'', toolName = JStr ''search_web'', args = JUndefined,
        result = JUndefined, parsed_status = JUndefined \<rparr> =
      Inr (chain_message
       \<lparr> step_title = JStr ''Calling search_web'', tool_name = JStr ''search_web'',
         description = JStr ''**Result:**'', request = None, response = None,
         status = SUCCESS \<rparr>)"
    by code_simp
  from contentType_precedence [of tagged_result _ sample_parse] h
  have 1: "contentType sample_parse tagged_result = TOOL_RESULT \<and>
      translateTrajectory sample_parse tagged_result =
        map_sum id Some (createToolResultFromTrajectory tagged_result
          (parseTrajectoryContent sample_parse (content tagged_result)))"
    by blast
  have t: "\<not> present (content_type titled_result)"
    "inferContentTypeFromTitle (title titled_result) = Some ''tool_result''"
    "parsed_type (parseTrajectoryContent sample_parse (content titled_result)) = ''tool_call''"
    by code_simp+
  from contentType_precedence [of titled_result "''tool_result''" sample_parse] t
  have 2: "contentType sample_parse titled_result = ''tool_result''" by blast
  have u: "\<not> present (content_type untitled_call)"
    "inferContentTypeFromTitle (title untitled_call) = None"
    "parsed_type (parseTrajectoryContent sample_parse (content untitled_call)) = ''tool_call''"
    "case content untitled_call of None \<Rightarrow> False
    | Some c \<Rightarrow> parsed_type (content_patterns c) = ''tool_result''"
    by code_simp+
  from contentType_precedence [of untitled_call _ sample_parse] u
  have 3: "contentType sample_parse untitled_call = ''tool_call''" by simp
  from h i p r 1 t 2 u 3 show ?thesis by (simp add: TOOL_RESULT_def)
qed

subsection \<open>The batch translator\<close>

lemma translate_parts_eq:
  "translate_parts parse a ps acc =
     (if \<exists>p \<in> set ps. isl (translatePart parse p (Some a)) then Inl TypeError
      else Inr (acc @ concat (map (\<lambda>p. returned (translatePart parse p (Some a))) ps)))"
proof (induction ps arbitrary: acc)
  case Nil
  then show ?case by simp
next
  case (Cons p ps)
  show ?case
  proof (cases "translatePart parse p (Some a)")
    case (Inl e)
    then show ?thesis by (cases e) simp
  next
    case (Inr r)
    then show ?thesis by (cases r) (simp_all add: Cons.IH returned_def)
  qed
qed

lemma translate_artifact_trajectory_eq:
  "translate_artifact_trajectory parse a acc =
     (if (case extractTrajectoryFromMetadata (artifact_metadata a) of
            None \<Rightarrow> False
          | Some tr \<Rightarrow> isl (translateTrajectory parse tr))
      then Inl TypeError else Inr (acc @ trajectory_messages parse a))"
  by (auto simp: translate_artifact_trajectory_def trajectory_messages_def returned_def
      split: option.splits sum.splits intro: error.exhaust)

lemma translate_artifacts_eq:
  "translate_artifacts parse as acc =
     (if \<exists>a \<in> set as. artifact_throws parse a then Inl TypeError
      else Inr (acc @ concat (map (\<lambda>a. trajectory_messages parse a @ part_messages parse a) as)))"
proof (induction as arbitrary: acc)
  case Nil
  then show ?case by simp
next
  case (Cons a as)
  show ?case
    by (simp add: translate_artifact_trajectory_eq translate_parts_eq Cons.IH
        artifact_throws_def part_messages_def)
qed

text \<open>
  Claim C3. Unless a translation throws, \<open>translateTask\<close> returns the messages of the
  artifacts in list order, and for each artifact the message of its trajectory metadata
  (when there is one and it translates to a message) followed by the messages of its
  parts in part order. A task whose first artifact carries trajectory metadata and one
  text part and whose second artifact carries one image file gives the trajectory
  message, the text message and the image message, in this order.
\<close>

theorem translateTask_order:
  "translateTask parse task =
     (if \<exists>a \<in> set (artifacts task). artifact_throws parse a then Inl TypeError
      else Inr (concat (map (\<lambda>a. trajectory_messages parse a @ part_messages parse a)
                         (artifacts task))))"
  by (simp add: translateTask_def translate_artifacts_eq)

theorem translateTask_order_witness:
  "\<not> (\<exists>a \<in> set (artifacts sample_task). artifact_throws rejecting_parse a) \<and>
   map_sum id (map response_type) (translateTask rejecting_parse sample_task) =
     Inr [''reasoning_steps'', ''text'', ''image'']"
proof -
  have n: "\<not> (\<exists>a \<in> set (artifacts sample_task). artifact_throws rejecting_parse a)"
    by code_simp
  have m: "concat (map (\<lambda>a. trajectory_messages rejecting_parse a @ part_messages rejecting_parse a)
                         (artifacts sample_task)) =
     [reasoning_message (''**Thinking**'' @ [CHR 0x0A, CHR 0x0A] @ ''Planning the search'') CLOSED,
      (empty_message ''text'') \<lparr> msg_text := Some ''Hello'',
         msg_metadata := Some [(TRAJECTORY, JObj [(''title'', JStr ''Thinking''),
                                       (''content'', JStr ''Planning the search'')])] \<rparr>,
      user_defined_message ''image''
        [(''type'', JStr ''image''), (''url'', JStr ''https://example.com/p.png''),
         (''alt'', JStr ''photo.png''), (''caption'', JUndefined)]]"
    by code_simp
  from translateTask_order [of rejecting_parse sample_task] n m show ?thesis
    by (simp add: reasoning_message_def empty_message_def user_defined_message_def)
qed

subsection \<open>Payload fields\<close>

text \<open>
  Claim C2, as stated, at two parts. An image file gives a message whose kind tag is
  \<open>image\<close> and whose only populated payload field is \<open>user_defined\<close>; a text part
  that carries no text gives a message of kind \<open>text\<close> with no payload field
  populated.
\<close>

theorem payload_field_counterexample:
  "translatePart rejecting_parse sample_image None = Inr (Some sample_image_message) \<and>
   response_type sample_image_message = ''image'' \<and>
   populated sample_image_message = [''user_defined''] \<and>
   translatePart rejecting_parse textless_part None = Inr (Some (empty_message ''text'')) \<and>
   populated (empty_message ''text'') = []"
  by code_simp

lemma payload_matches_simps:
  "payload_matches (chain_message step)"
  "payload_matches (reasoning_message c st)"
  "payload_matches (user_defined_message ''image'' ud)"
  "payload_matches (user_defined_message ''user_defined'' ud)"
  "payload_matches ((empty_message ''text'') \<lparr> msg_text := x \<rparr>)"
  "payload_matches ((empty_message ''text'') \<lparr> msg_text := x, msg_metadata := md \<rparr>)"
  by (simp_all add: payload_matches_def populated_def payload_field_def chain_message_def
      reasoning_message_def user_defined_message_def empty_message_def)

lemma payload_matches_metadata:
  "payload_matches (m \<lparr> msg_metadata := md \<rparr>) = payload_matches m"
  by (simp add: payload_matches_def populated_def)

lemma payload_matches_with_metadata:
  "with_metadata r md = Some m \<Longrightarrow> (\<And>m'. r = Some m' \<Longrightarrow> payload_matches m') \<Longrightarrow> payload_matches m"
  by (auto simp: with_metadata_def payload_matches_metadata split: option.splits)

lemma translateTrajectory_payload:
  "translateTrajectory parse t = Inr (Some m) \<Longrightarrow> payload_matches m"
  by (auto simp: translateTrajectory_def Let_def createToolCallFromTrajectory_def
      createToolResultFromTrajectory_def createReasoningFromTrajectory_def
      createStatusFromTrajectory_def payload_matches_simps
      split: if_splits sum.splits)

lemma translateMetadataPart_payload:
  "translateMetadataPart p = Some m \<Longrightarrow> payload_matches m"
  by (auto simp: translateMetadataPart_def Let_def payload_matches_simps split: if_splits)

lemma translateDataPart_payload:
  "translateDataPart p = Inr (Some m) \<Longrightarrow> payload_matches m"
  by (auto simp: translateDataPart_def Let_def payload_matches_simps split: if_splits sum.splits)

lemma translateFilePart_payload:
  "translateFilePart p a = Some m \<Longrightarrow> payload_matches m"
  by (auto simp: translateFilePart_def payload_matches_simps split: if_splits option.splits)

lemma translateGenericDataPart_payload:
  "translateGenericDataPart p = Inr (Some m) \<Longrightarrow> payload_matches m"
  by (auto simp: translateGenericDataPart_def Let_def payload_matches_simps
      split: if_splits sum.splits)

lemma map_sum_Inr_Some:
  "map_sum id f r = Inr y \<Longrightarrow> \<exists>x. r = Inr x \<and> f x = y"
  by (cases r) auto

lemma translatePart_payload:
  assumes "translatePart parse p a = Inr (Some m)"
  shows "payload_matches m"
proof (cases "extractTrajectoryFromMetadata (part_metadata p)")
  case (Some tr)
  with assms show ?thesis
    by (simp add: translatePart_def translateTrajectory_payload)
next
  case None
  with assms show ?thesis
    by (auto simp: translatePart_def Let_def payload_matches_simps
        split: if_splits
        dest!: map_sum_Inr_Some
        elim!: payload_matches_with_metadata
        dest: translateMetadataPart_payload translateDataPart_payload translateFilePart_payload
          translateGenericDataPart_payload)
qed


lemma returned_payload:
  "m \<in> set (returned r) \<Longrightarrow> r = Inr (Some m)"
  by (auto simp: returned_def split: sum.splits option.splits)

lemma translateTask_payload:
  assumes "translateTask parse task = Inr ms" and "m \<in> set ms"
  shows "payload_matches m"
proof -
  from assms(1) have "ms = concat (map (\<lambda>a. trajectory_messages parse a @ part_messages parse a)
                         (artifacts task))"
    by (simp add: translateTask_def translate_artifacts_eq split: if_splits)
  with assms(2) obtain a where "a \<in> set (artifacts task)"
    and "m \<in> set (trajectory_messages parse a) \<or> m \<in> set (part_messages parse a)"
    by auto
  then show ?thesis
    by (auto simp: trajectory_messages_def part_messages_def split: option.splits
        dest!: returned_payload dest: translateTrajectory_payload translatePart_payload)
qed

text \<open>
  Claim C2, amended. Every message produced by the trajectory, part, streaming-part and
  batch paths and by the static factories populates at most one payload field: the field
  named by its response type, where the response type \<open>image\<close> uses \<open>user_defined\<close>;
  the only messages with no payload field are of kind \<open>text\<close>.
\<close>

theorem payload_by_kind:
  "(translateTrajectory parse t = Inr (Some m) \<longrightarrow> payload_matches m) \<and>
   (translatePart parse p a = Inr (Some m) \<longrightarrow> payload_matches m) \<and>
   (translateStreamingPart parse p md = Inr (Some m) \<longrightarrow> payload_matches m) \<and>
   (translateTask parse task = Inr ms \<longrightarrow> list_all payload_matches ms) \<and>
   payload_matches (createToolCallMessage name args' descr) \<and>
   payload_matches (createToolResultMessage name res args' err descr) \<and>
   payload_matches (createReasoningMessage c st)"
proof (intro conjI impI)
  show "translateTrajectory parse t = Inr (Some m) \<Longrightarrow> payload_matches m"
    by (rule translateTrajectory_payload)
  show "translatePart parse p a = Inr (Some m) \<Longrightarrow> payload_matches m"
    by (rule translatePart_payload)
  show "translateStreamingPart parse p md = Inr (Some m) \<Longrightarrow> payload_matches m"
    by (auto simp: translateStreamingPart_def split: option.splits
        dest: translateTrajectory_payload translatePart_payload)
  show "translateTask parse task = Inr ms \<Longrightarrow> list_all payload_matches ms"
    by (auto simp: list_all_iff dest: translateTask_payload)
  show "payload_matches (createToolCallMessage name args' descr)"
    by (simp add: createToolCallMessage_def payload_matches_simps)
  show "payload_matches (createToolResultMessage name res args' err descr)"
    by (simp add: createToolResultMessage_def payload_matches_simps)
  show "payload_matches (createReasoningMessage c st)"
    by (simp add: createReasoningMessage_def payload_matches_simps)
qed

lemma translateTask_sample:
  "translateTask rejecting_parse sample_task = Inr sample_task_messages"
  by code_simp

theorem payload_by_kind_witness:
  "translateTask rejecting_parse sample_task = Inr sample_task_messages \<and>
   map response_type sample_task_messages = [''reasoning_steps'', ''text'', ''image''] \<and>
   map populated sample_task_messages = [[''reasoning_steps''], [''text''], [''user_defined'']] \<and>
   list_all payload_matches sample_task_messages"
proof -
  have e: "translateTask rejecting_parse sample_task = Inr sample_task_messages"
    by (rule translateTask_sample)
  have r: "map response_type sample_task_messages = [''reasoning_steps'', ''text'', ''image'']"
    and q: "map populated sample_task_messages = [[''reasoning_steps''], [''text''], [''user_defined'']]"
    by code_simp+
  from payload_by_kind [of rejecting_parse _ _ _ _ _ sample_task sample_task_messages] e
  have "list_all payload_matches sample_task_messages" by blast
  with e r q show ?thesis by simp
qed

subsection \<open>Metadata extractors\<close>


lemma filter_objects_subset:
  "c \<in> set (filter_objects xs) \<Longrightarrow> typeof_object c \<and> c \<noteq> JNull"
  by (simp add: filter_objects_def)




subsection \<open>Unknown kinds\<close>




subsection \<open>The streaming accumulator\<close>

lemma merge_chunk_status [simp]: "status (merge_chunk step c) = status step"
  by (simp add: merge_chunk_def)

lemma opened_step_status [simp]: "status (opened_step c) = PROCESSING"
  by (simp add: opened_step_def)

lemma consistent_new: "consistent new_accumulator"
  by (simp add: consistent_def new_accumulator_def)

lemma consistentD:
  assumes "consistent s" "in_progress s k = Some i"
  shows "i < length (built s)" "status (built s ! i) = PROCESSING"
    "in_progress s k' = Some i \<Longrightarrow> k' = k"
  using assms unfolding consistent_def by blast+

lemma consistentI:
  assumes "\<And>k i. in_progress s k = Some i \<Longrightarrow> i < length (built s)"
    and "\<And>k i. in_progress s k = Some i \<Longrightarrow> status (built s ! i) = PROCESSING"
    and "\<And>k k' i. in_progress s k = Some i \<Longrightarrow> in_progress s k' = Some i \<Longrightarrow> k' = k"
  shows "consistent s"
  using assms unfolding consistent_def by blast

lemma feed_None:
  assumes "in_progress s (chunk_key c) = None"
  shows "feed s c =
     (if chunk_status c = PROCESSING then
        s \<lparr> in_progress := (in_progress s)(chunk_key c \<mapsto> length (built s)),
            built := built s @ [opened_step c],
            deltas := deltas s @ [Opened (length (built s)) (chunk_key c)] \<rparr>
      else
        s \<lparr> in_progress := in_progress s,
            built := built s @ [(opened_step c) \<lparr> status := chunk_status c \<rparr>],
            deltas := deltas s @ [Opened (length (built s)) (chunk_key c),
                                  Finalized (length (built s)) (chunk_key c)] \<rparr>)"
  using assms by (auto simp: feed_def Let_def fun_upd_idem)

lemma feed_Some:
  assumes "in_progress s (chunk_key c) = Some i"
  shows "feed s c =
     (if chunk_status c = PROCESSING then
        s \<lparr> built := (built s)[i := merge_chunk (built s ! i) c],
            deltas := deltas s @ [Updated i (chunk_key c)] \<rparr>
      else
        s \<lparr> in_progress := (in_progress s)(chunk_key c := None),
            built := (built s)[i := ((built s)[i := merge_chunk (built s ! i) c] ! i)
                                      \<lparr> status := chunk_status c \<rparr>],
            deltas := deltas s @ [Finalized i (chunk_key c)] \<rparr>)"
  using assms by (auto simp: feed_def Let_def)

lemma feed_consistent:
  assumes "consistent s"
  shows "consistent (feed s c)"
proof (cases "in_progress s (chunk_key c)")
  case None
  show ?thesis
  proof (cases "chunk_status c = PROCESSING")
    case True
    show ?thesis
    proof (rule consistentI)
      fix k i assume "in_progress (feed s c) k = Some i"
      with None True have a: "(k = chunk_key c \<and> i = length (built s)) \<or> in_progress s k = Some i"
        by (auto simp: feed_None split: if_splits)
      from a consistentD(1) [OF assms] show "i < length (built (feed s c))"
        using None True by (auto simp: feed_None less_Suc_eq)
      from a consistentD(1,2) [OF assms] show "status (built (feed s c) ! i) = PROCESSING"
        using None True by (auto simp: feed_None nth_append)
    next
      fix k k' i
      assume "in_progress (feed s c) k = Some i" "in_progress (feed s c) k' = Some i"
      with None True consistentD(1,3) [OF assms] show "k' = k"
        by (auto simp: feed_None split: if_splits)
    qed
  next
    case False
    show ?thesis
    proof (rule consistentI)
      fix k i assume "in_progress (feed s c) k = Some i"
      with None False have a: "in_progress s k = Some i" by (simp add: feed_None)
      from a consistentD(1) [OF assms] show "i < length (built (feed s c))"
        using None False by (auto simp: feed_None less_Suc_eq)
      from a consistentD(1,2) [OF assms] show "status (built (feed s c) ! i) = PROCESSING"
        using None False by (auto simp: feed_None nth_append)
    next
      fix k k' i
      assume "in_progress (feed s c) k = Some i" "in_progress (feed s c) k' = Some i"
      with None False consistentD(3) [OF assms] show "k' = k"
        by (auto simp: feed_None)
    qed
  qed
next
  case (Some j)
  note j = consistentD [OF assms Some]
  show ?thesis
  proof (cases "chunk_status c = PROCESSING")
    case True
    show ?thesis
    proof (rule consistentI)
      fix k i assume "in_progress (feed s c) k = Some i"
      with Some True have a: "in_progress s k = Some i" by (simp add: feed_Some)
      from a consistentD(1) [OF assms] show "i < length (built (feed s c))"
        using Some True by (auto simp: feed_Some)
      from a consistentD(1,2) [OF assms] show "status (built (feed s c) ! i) = PROCESSING"
        using Some True by (auto simp: feed_Some nth_list_update)
    next
      fix k k' i
      assume "in_progress (feed s c) k = Some i" "in_progress (feed s c) k' = Some i"
      with Some True consistentD(3) [OF assms] show "k' = k"
        by (auto simp: feed_Some)
    qed
  next
    case False
    show ?thesis
    proof (rule consistentI)
      fix k i assume "in_progress (feed s c) k = Some i"
      with Some False have a: "in_progress s k = Some i" and b: "k \<noteq> chunk_key c"
        by (auto simp: feed_Some split: if_splits)
      from a b j(3) have ne: "i \<noteq> j" by auto
      from a consistentD(1) [OF assms] show "i < length (built (feed s c))"
        using Some False by (auto simp: feed_Some)
      from a ne consistentD(1,2) [OF assms] show "status (built (feed s c) ! i) = PROCESSING"
        using Some False by (auto simp: feed_Some nth_list_update)
    next
      fix k k' i
      assume "in_progress (feed s c) k = Some i" "in_progress (feed s c) k' = Some i"
      with Some False consistentD(3) [OF assms] show "k' = k"
        by (auto simp: feed_Some split: if_splits)
    qed
  qed
qed

lemma feed_all_consistent: "consistent s \<Longrightarrow> consistent (feed_all s cs)"
  unfolding feed_all_def by (induction cs arbitrary: s) (simp_all add: feed_consistent)

lemma feed_terminal_kept:
  assumes "consistent s" "i < length (built s)" "status (built s ! i) \<noteq> PROCESSING"
  shows "i < length (built (feed s c)) \<and> built (feed s c) ! i = built s ! i"
proof (cases "in_progress s (chunk_key c)")
  case None
  with assms(2) show ?thesis
    by (auto simp: feed_None nth_append)
next
  case (Some j)
  from consistentD(2) [OF assms(1) Some] assms(3) have "j \<noteq> i" by auto
  with Some assms(2) show ?thesis
    by (auto simp: feed_Some)
qed

lemma feed_all_terminal_kept:
  "consistent s \<Longrightarrow> i < length (built s) \<Longrightarrow> status (built s ! i) \<noteq> PROCESSING \<Longrightarrow>
   i < length (built (feed_all s cs)) \<and> built (feed_all s cs) ! i = built s ! i"
proof (induction cs arbitrary: s)
  case Nil
  then show ?case by (simp add: feed_all_def)
next
  case (Cons c cs)
  from feed_terminal_kept [OF Cons.prems, of c]
  have 1: "i < length (built (feed s c))" and 2: "built (feed s c) ! i = built s ! i" by simp_all
  from 2 Cons.prems(3) have 3: "status (built (feed s c) ! i) \<noteq> PROCESSING" by simp
  from Cons.IH [OF feed_consistent [OF Cons.prems(1)] 1 3] 2
  show ?case by (simp add: feed_all_def)
qed


text \<open>
  Claim C10. Two chunks with the same correlation key, the first in processing state and
  the second with success status, give one opening delta followed by one finalizing delta
  for the same item, and one step, in success state. A step that has reached success or
  error in a state of the accumulator is the same step after any further chunks, whatever
  their keys.
\<close>

theorem accumulator_one_step:
  "(chunk_key c2 = chunk_key c1 \<longrightarrow> chunk_status c1 = PROCESSING \<longrightarrow> chunk_status c2 = SUCCESS \<longrightarrow>
      deltas (feed_all new_accumulator [c1, c2]) =
        [Opened 0 (chunk_key c1), Finalized 0 (chunk_key c1)] \<and>
      map status (built (feed_all new_accumulator [c1, c2])) = [SUCCESS]) \<and>
   (s = feed_all new_accumulator cs \<longrightarrow> i < length (built s) \<longrightarrow>
    status (built s ! i) \<noteq> PROCESSING \<longrightarrow>
      i < length (built (feed_all s cs')) \<and> built (feed_all s cs') ! i = built s ! i)"
proof (intro conjI impI)
  assume a: "chunk_key c2 = chunk_key c1" "chunk_status c1 = PROCESSING" "chunk_status c2 = SUCCESS"
  have 1: "feed new_accumulator c1 =
      \<lparr> in_progress = Map.empty(chunk_key c1 \<mapsto> 0), built = [opened_step c1],
        deltas = [Opened 0 (chunk_key c1)] \<rparr>"
    using a(2) by (simp add: feed_None new_accumulator_def)
  have 2: "feed (feed new_accumulator c1) c2 =
      \<lparr> in_progress = (Map.empty(chunk_key c1 \<mapsto> 0))(chunk_key c1 := None),
        built = [(merge_chunk (opened_step c1) c2) \<lparr> status := SUCCESS \<rparr>],
        deltas = [Opened 0 (chunk_key c1), Finalized 0 (chunk_key c1)] \<rparr>"
    unfolding 1 using a(1,3) by (subst feed_Some [where i = 0]) simp_all
  from 2 show "deltas (feed_all new_accumulator [c1, c2]) =
        [Opened 0 (chunk_key c1), Finalized 0 (chunk_key c1)]"
    by (simp add: feed_all_def)
  from 2 show "map status (built (feed_all new_accumulator [c1, c2])) = [SUCCESS]"
    by (simp add: feed_all_def)
next
  assume s: "s = feed_all new_accumulator cs" and i: "i < length (built s)"
    and t: "status (built s ! i) \<noteq> PROCESSING"
  from s have c: "consistent s" by (simp add: feed_all_consistent consistent_new)
  from feed_all_terminal_kept [OF c i t, of cs']
  show "i < length (built (feed_all s cs'))" and "built (feed_all s cs') ! i = built s ! i"
    by simp_all
qed

lemma feed_sample:
  "feed_all new_accumulator [search_started, search_finished] =
     \<lparr> in_progress = (Map.empty(''g1'' \<mapsto> 0))(''g1'' := None),
       built = [\<lparr> step_title = JStr ''Calling search_web'', tool_name = JStr ''search_web'',
                  description = JUndefined, request = Some (JObj [(''query'', JStr ''a2a'')]),
                  response = Some (JStr ''3 results''), status = SUCCESS \<rparr>],
       deltas = [Opened 0 ''g1'', Finalized 0 ''g1''] \<rparr>"
  by (simp add: feed_all_def feed_def Let_def new_accumulator_def search_started_def
      search_finished_def opened_step_def merge_chunk_def str_json_def)

theorem accumulator_one_step_witness:
  "chunk_key search_finished = chunk_key search_started \<and>
   chunk_status search_started = PROCESSING \<and> chunk_status search_finished = SUCCESS \<and>
   deltas (feed_all new_accumulator [search_started, search_finished]) =
     [Opened 0 ''g1'', Finalized 0 ''g1''] \<and>
   map status (built (feed_all new_accumulator [search_started, search_finished])) = [SUCCESS] \<and>
   built (feed_all (feed_all new_accumulator [search_started, search_finished]) [search_late]) ! 0 =
     built (feed_all new_accumulator [search_started, search_finished]) ! 0"
proof -
  have h: "chunk_key search_finished = chunk_key search_started"
    "chunk_status search_started = PROCESSING" "chunk_status search_finished = SUCCESS"
    by (simp_all add: search_started_def search_finished_def)
  have k: "chunk_key search_started = ''g1''" by (simp add: search_started_def)
  have b: "0 < length (built (feed_all new_accumulator [search_started, search_finished]))"
    "status (built (feed_all new_accumulator [search_started, search_finished]) ! 0) \<noteq> PROCESSING"
    by (simp_all add: feed_sample)
  from accumulator_one_step [of search_finished search_started
      "feed_all new_accumulator [search_started, search_finished]"
      "[search_started, search_finished]" 0 "[search_late]"] h b k
  show ?thesis by simp
qed

end
